theory Spec2Isabelle
  imports Complex_Main
begin

section \<open>Notification aggregation (msg\_aggregator.py)\<close>

text \<open>
  Wall-clock readings (\<open>time.time()\<close>) are seconds, modelled as real numbers. Every
  operation takes the reading \<open>now\<close> of the clock at the moment it runs.
\<close>

type_synonym seconds = real

text \<open>
  \<open>PendingMessage\<close>: the content, the creation time and the metadata dictionary, whose
  only entry is \<open>"targets"\<close>.
\<close>

record ('c, 't) PendingMessage =
  content :: 'c
  timestamp :: seconds
  targets :: "'t list"

text \<open>
  \<open>AggregationGroup\<close>. The field \<open>timer\<close> holds the deadline of the group's
  \<open>threading.Timer\<close> while that timer is alive (started, neither cancelled nor expired),
  and \<open>None\<close> otherwise.
\<close>

record ('c, 't) AggregationGroup =
  key :: string
  messages :: "('c, 't) PendingMessage list"
  timer :: "seconds option"
  created_at :: seconds
  last_updated :: seconds

text \<open>
  \<open>MessageAggregator\<close>. \<open>outbox\<close> is the log of the calls
  \<open>_send_aggregated_to_target(messages, target)\<close> made so far, oldest first: each entry is
  one outbound send of a bundle to one target.
\<close>

record ('c, 't) MessageAggregator =
  aggregation_groups :: "string \<rightharpoonup> ('c, 't) AggregationGroup"
  mute_until :: seconds
  outbox :: "('t \<times> ('c, 't) PendingMessage list) list"

definition default_delay :: seconds where
  "default_delay = 5"

definition max_messages_per_group :: nat where
  "max_messages_per_group = 10"

text \<open>\<open>config.get("aggregation_delay", self.default_delay)\<close>\<close>

definition aggregation_delay :: "seconds option \<Rightarrow> seconds" where
  "aggregation_delay cfg = (case cfg of None \<Rightarrow> default_delay | Some d \<Rightarrow> d)"

definition set_mute :: "seconds \<Rightarrow> real \<Rightarrow> ('c, 't) MessageAggregator \<Rightarrow> ('c, 't) MessageAggregator" where
  "set_mute now duration_minutes agg = agg\<lparr>mute_until := now + duration_minutes * 60\<rparr>"

definition is_muted :: "seconds \<Rightarrow> ('c, 't) MessageAggregator \<Rightarrow> bool" where
  "is_muted now agg \<longleftrightarrow> now < mute_until agg"

text \<open>Python's \<open>xs[-n:]\<close> for \<open>n > 0\<close>: the last \<open>n\<close> elements, all of them when there are fewer.\<close>

definition keep_last :: "nat \<Rightarrow> 'a list \<Rightarrow> 'a list" where
  "keep_last n xs = drop (length xs - n) xs"

text \<open>
  \<open>add_message\<close>: dropped when muted; otherwise the group is created if absent, its live
  timer is cancelled, the message is appended, the list is cut to the newest ten, and a new
  timer is started that expires \<open>delay\<close> seconds from now.
\<close>

definition add_message ::
  "seconds \<Rightarrow> seconds option \<Rightarrow> string \<Rightarrow> 'c \<Rightarrow> 't list \<Rightarrow> ('c, 't) MessageAggregator
    \<Rightarrow> bool \<times> ('c, 't) MessageAggregator" where
  "add_message now cfg aggregation_key message_content tgts agg =
     (if is_muted now agg then (False, agg)
      else
        let pending_msg = \<lparr>content = message_content, timestamp = now, targets = tgts\<rparr>;
            grp = (case aggregation_groups agg aggregation_key of
                       None \<Rightarrow> \<lparr>key = aggregation_key, messages = [], timer = None,
                                 created_at = now, last_updated = now\<rparr>
                     | Some g \<Rightarrow> g);
            appended = messages grp @ [pending_msg];
            kept = (if length appended > max_messages_per_group
                    then keep_last max_messages_per_group appended else appended);
            grp' = grp\<lparr>messages := kept, last_updated := now,
                            timer := Some (now + aggregation_delay cfg)\<rparr>
        in (True, agg\<lparr>aggregation_groups := (aggregation_groups agg)(aggregation_key \<mapsto> grp')\<rparr>))"

text \<open>
  \<open>_send_aggregated_messages\<close>: the coroutine the timer callback schedules. The mute test
  comes first and returns before the table is touched. Otherwise, under the lock, a missing
  group ends the call, an empty group is deleted, and a non-empty group is copied and deleted;
  the targets are those of the first copied message. After the lock one send per target is made.
\<close>

definition send_aggregated_messages ::
  "seconds \<Rightarrow> string \<Rightarrow> ('c, 't) MessageAggregator \<Rightarrow> ('c, 't) MessageAggregator" where
  "send_aggregated_messages now aggregation_key agg =
     (if is_muted now agg then agg
      else
        case aggregation_groups agg aggregation_key of
          None \<Rightarrow> agg
        | Some grp \<Rightarrow>
            (case messages grp of
               [] \<Rightarrow> agg\<lparr>aggregation_groups := (aggregation_groups agg)(aggregation_key := None)\<rparr>
             | first # rest \<Rightarrow>
                 let messages_to_send = first # rest;
                     tgts = targets first;
                     agg' = agg\<lparr>aggregation_groups :=
                                  (aggregation_groups agg)(aggregation_key := None)\<rparr>
                 in if tgts = [] then agg'
                    else agg'\<lparr>outbox := outbox agg' @ map (\<lambda>target. (target, messages_to_send)) tgts\<rparr>))"

text \<open>
  The passage of time up to \<open>now\<close>, seen from one key: if the group's timer is alive and its
  deadline has been reached, the timer expires (it is no longer alive) and its callback runs
  \<open>_send_aggregated_messages\<close> at the deadline on the main event loop, which is taken to be
  available. A cancelled or not yet due timer does nothing.
\<close>

definition timer_expires ::
  "seconds \<Rightarrow> string \<Rightarrow> ('c, 't) MessageAggregator \<Rightarrow> ('c, 't) MessageAggregator" where
  "timer_expires now aggregation_key agg =
     (case aggregation_groups agg aggregation_key of
        None \<Rightarrow> agg
      | Some grp \<Rightarrow>
          (case timer grp of
             None \<Rightarrow> agg
           | Some deadline \<Rightarrow>
               if deadline \<le> now
               then send_aggregated_messages deadline aggregation_key
                      (agg\<lparr>aggregation_groups :=
                            (aggregation_groups agg)(aggregation_key \<mapsto> grp\<lparr>timer := None\<rparr>)\<rparr>)
               else agg))"







subsection \<open>Example aggregator states\<close>


text \<open>
  One message is pending for \<open>qq_1\<close> with its timer due at 45; the mute was set afterwards
  and lasts until 100.
\<close>

definition muted_pending :: "(string, string) MessageAggregator" where
  "muted_pending =
     \<lparr>aggregation_groups =
        [''qq_1'' \<mapsto> \<lparr>key = ''qq_1'',
                        messages = [\<lparr>content = ''push'', timestamp = 40, targets = [''group 1'']\<rparr>],
                        timer = Some 45, created_at = 40, last_updated = 40\<rparr>],
      mute_until = 100, outbox = []\<rparr>"

text \<open>Two messages are pending for \<open>qq_1\<close>; they name different targets. No mute.\<close>

definition two_pending :: "(string, string) MessageAggregator" where
  "two_pending =
     \<lparr>aggregation_groups =
        [''qq_1'' \<mapsto> \<lparr>key = ''qq_1'',
                        messages = [\<lparr>content = ''push'', timestamp = 40, targets = [''group 1'']\<rparr>,
                                    \<lparr>content = ''star'', timestamp = 41, targets = [''group 2'']\<rparr>],
                        timer = Some 46, created_at = 40, last_updated = 41\<rparr>],
      mute_until = 0, outbox = []\<rparr>"


section \<open>Webhook ingress (utils.py, webhook.py)\<close>

subsection \<open>Values\<close>

text \<open>
  A decoded JSON value (\<open>json.loads\<close>): a dictionary is the list of its items in document
  order. An exception raised inside a function is the result \<open>Raises\<close>.
\<close>

datatype json = JNull | JBool bool | JNum real | JStr string | JArr "json list"
  | JObj "(string \<times> json) list"

datatype 'a outcome = Returns 'a | Raises

text \<open>Python truthiness: \<open>None\<close>, \<open>False\<close>, zero and empty containers are false.\<close>

fun truthy :: "json \<Rightarrow> bool" where
  "truthy JNull = False"
| "truthy (JBool b) = b"
| "truthy (JNum x) = (x \<noteq> 0)"
| "truthy (JStr s) = (s \<noteq> [])"
| "truthy (JArr xs) = (xs \<noteq> [])"
| "truthy (JObj kvs) = (kvs \<noteq> [])"

text \<open>\<open>d.get(k)\<close> on a decoded object: of two items with one key the later one counts.\<close>

definition dict_get :: "(string \<times> json) list \<Rightarrow> string \<Rightarrow> json" where
  "dict_get kvs k = (case map_of (rev kvs) k of None \<Rightarrow> JNull | Some v \<Rightarrow> v)"

subsection \<open>Signature verification\<close>

text \<open>
  \<open>hmac.new(key, body, algorithm).hexdigest()\<close> belongs to the Python library; the verifier
  takes it as the parameter \<open>hexdigest\<close>. \<open>hmac.compare_digest\<close> returns whether its two
  arguments are equal; when it raises on a signature that is not ASCII, the handler returns
  False, which is also what the comparison with a hexadecimal digest gives.
\<close>

datatype hash_algorithm = SHA1 | SHA256

type_synonym hexdigest_fn = "hash_algorithm \<Rightarrow> string \<Rightarrow> string \<Rightarrow> string"

definition startswith :: "string \<Rightarrow> string \<Rightarrow> bool" where
  "startswith s pre \<longleftrightarrow> take (length pre) s = pre"

definition verify_github_signature :: "hexdigest_fn \<Rightarrow> string \<Rightarrow> string \<Rightarrow> string \<Rightarrow> bool" where
  "verify_github_signature hexdigest payload_body signature_header secret =
     (if signature_header = [] \<or> secret = [] then True
      else if startswith signature_header ''sha1=''
        then drop 5 signature_header = hexdigest SHA1 secret payload_body
      else if startswith signature_header ''sha256=''
        then drop 7 signature_header = hexdigest SHA256 secret payload_body
      else False)"

subsection \<open>Events, configuration, processor state\<close>

text \<open>
  \<open>WebhookEvent\<close> with the fields \<open>process_webhook\<close> reads. \<open>repository\<close> is \<open>None\<close>
  (\<open>JNull\<close>) until it is extracted from the payload.
\<close>

record WebhookEvent =
  event_type :: string
  delivery_id :: string
  signature :: string
  payload :: json
  raw_body :: "string option"
  repository :: json

text \<open>
  The dictionary of one repository in \<open>repo_mappings\<close>, with the keys the ingress reads; an
  absent key is \<open>None\<close>. A configured repository's dictionary is not empty.
\<close>

record WebhookSection =
  webhook_enabled :: "bool option"
  webhook_verify_signature :: "bool option"

record RepoConfig =
  enabled :: "bool option"
  webhook :: "WebhookSection option"
  verify_signature :: "bool option"
  webhook_secret :: "string option"
  allowed_message_types :: "string list option"

text \<open>
  What the processor depends on: the HMAC of the library, \<open>json.dumps\<close>, whether
  \<open>set_dependencies\<close> has installed \<open>utils\<close>, and the configuration manager's table.
\<close>

record Dependencies =
  hexdigest_of :: hexdigest_fn
  json_dumps :: "json \<Rightarrow> string"
  utils_set :: bool
  repo_mappings :: "string \<rightharpoonup> RepoConfig"

record WebhookProcessor =
  delivery_cache :: "string \<rightharpoonup> seconds"
  event_queue :: "WebhookEvent list"

definition cache_ttl :: seconds where
  "cache_ttl = 3600"

definition queue_maxsize :: nat where
  "queue_maxsize = 1000"

definition supported_events :: "string list" where
  "supported_events =
     [''push'', ''pull_request'', ''issues'', ''issue_comment'', ''pull_request_review'',
      ''pull_request_review_comment'', ''release'', ''star'', ''fork'', ''watch'', ''create'',
      ''delete'', ''workflow_run'', ''workflow_job'', ''repository'', ''ping'']"

subsection \<open>The steps of \<open>process_webhook\<close>\<close>

definition validate_event :: "WebhookEvent \<Rightarrow> bool" where
  "validate_event event =
     (if event_type event = [] then False
      else if delivery_id event = [] then False
      else if \<not> truthy (payload event) then False
      else if event_type event \<notin> set supported_events then False
      else True)"

text \<open>
  \<open>_extract_repository_name\<close>. On a payload that is true but not a dictionary the membership
  test or the call of \<open>get\<close> raises. The result is the value under \<open>full_name\<close>, whatever its
  type, or \<open>None\<close>.
\<close>

definition repository_full_name :: "json \<Rightarrow> json" where
  "repository_full_name repo =
     (case repo of JObj r \<Rightarrow> (if r \<noteq> [] then dict_get r ''full_name'' else JNull) | _ \<Rightarrow> JNull)"

definition extract_repository_name :: "json \<Rightarrow> json outcome" where
  "extract_repository_name pl =
     (if \<not> truthy pl then Returns JNull
      else case pl of
        JObj kvs \<Rightarrow>
          (if ''payload'' \<in> fst ` set kvs
           then (case dict_get kvs ''payload'' of
                   JObj inner \<Rightarrow>
                     (if inner \<noteq> [] then Returns (repository_full_name (dict_get inner ''repository''))
                      else Returns JNull)
                 | _ \<Rightarrow> Returns JNull)
           else Returns (repository_full_name (dict_get kvs ''repository'')))
      | _ \<Rightarrow> Raises)"

text \<open>
  \<open>_is_duplicate_delivery\<close>: entries older than the time to live are removed, then the
  identifier is looked up, and recorded if it is absent.
\<close>

definition expire :: "seconds \<Rightarrow> (string \<rightharpoonup> seconds) \<Rightarrow> (string \<rightharpoonup> seconds)" where
  "expire current_time cache =
     (\<lambda>k. case cache k of
             None \<Rightarrow> None
           | Some ts \<Rightarrow> if current_time - ts > cache_ttl then None else Some ts)"

definition is_duplicate_delivery ::
  "seconds \<Rightarrow> string \<Rightarrow> WebhookProcessor \<Rightarrow> bool \<times> WebhookProcessor" where
  "is_duplicate_delivery current_time d st =
     (let cache = expire current_time (delivery_cache st)
      in if cache d \<noteq> None then (True, st\<lparr>delivery_cache := cache\<rparr>)
         else (False, st\<lparr>delivery_cache := cache(d \<mapsto> current_time)\<rparr>))"

text \<open>
  \<open>get_repository_config\<close>: a dictionary lookup under the extracted name. A list or a
  dictionary is not hashable and the lookup raises; a number or a boolean is no key of the
  table.
\<close>

definition get_repository_config :: "Dependencies \<Rightarrow> json \<Rightarrow> RepoConfig option outcome" where
  "get_repository_config deps repo =
     (case repo of
        JStr name \<Rightarrow> Returns (repo_mappings deps name)
      | JArr _ \<Rightarrow> Raises
      | JObj _ \<Rightarrow> Raises
      | _ \<Rightarrow> Returns None)"

text \<open>\<open>d.get(k, default)\<close> on an optional key.\<close>

definition get_or :: "'a \<Rightarrow> 'a option \<Rightarrow> 'a" where
  "get_or d v = (case v of None \<Rightarrow> d | Some x \<Rightarrow> x)"

definition is_repository_enabled :: "Dependencies \<Rightarrow> json \<Rightarrow> bool outcome" where
  "is_repository_enabled deps repo =
     (if \<not> truthy repo then Returns False
      else case get_repository_config deps repo of
        Raises \<Rightarrow> Raises
      | Returns None \<Rightarrow> Returns False
      | Returns (Some repo_config) \<Rightarrow>
          Returns (get_or True (enabled repo_config)
                   \<and> get_or True (case webhook repo_config of
                                       None \<Rightarrow> None | Some w \<Rightarrow> webhook_enabled w)))"

text \<open>
  \<open>_verify_webhook_signature\<close>. Reading a key of a missing configuration raises. Without
  the raw body the payload is serialised again.
\<close>

definition verify_webhook_signature :: "Dependencies \<Rightarrow> WebhookEvent \<Rightarrow> bool outcome" where
  "verify_webhook_signature deps event =
     (if \<not> truthy (repository event) then Returns False
      else case get_repository_config deps (repository event) of
        Raises \<Rightarrow> Raises
      | Returns None \<Rightarrow> Raises
      | Returns (Some repo_config) \<Rightarrow>
          let verify = (case (case webhook repo_config of
                                None \<Rightarrow> None | Some w \<Rightarrow> webhook_verify_signature w) of
                          Some v \<Rightarrow> v
                        | None \<Rightarrow> get_or True (verify_signature repo_config))
          in if \<not> verify then Returns True
             else if \<not> utils_set deps then Returns True
             else case webhook_secret repo_config of
                    None \<Rightarrow> Returns False
                  | Some secret \<Rightarrow>
                      if secret = [] then Returns False
                      else
                        let payload_bytes = (case raw_body event of
                                               None \<Rightarrow> json_dumps deps (payload event)
                                             | Some body \<Rightarrow> body)
                        in Returns (verify_github_signature (hexdigest_of deps) payload_bytes
                                      (signature event) secret))"

text \<open>
  What a call of \<open>process_webhook\<close> comes to: it returns a boolean, or it is suspended in
  \<open>await self.event_queue.put(event)\<close> because the queue holds \<open>maxsize\<close> events.
\<close>

datatype submit_outcome = Done bool | Suspended

text \<open>
  \<open>process_webhook\<close>. Every exception is caught and gives False; the processor keeps the
  changes made before it.
\<close>

definition process_webhook ::
  "Dependencies \<Rightarrow> seconds \<Rightarrow> WebhookEvent \<Rightarrow> WebhookProcessor \<Rightarrow> submit_outcome \<times> WebhookProcessor" where
  "process_webhook deps now webhook_data st =
     (if \<not> validate_event webhook_data then (Done False, st)
      else case extract_repository_name (payload webhook_data) of
        Raises \<Rightarrow> (Done False, st)
      | Returns repo \<Rightarrow>
          let event = webhook_data\<lparr>repository := repo\<rparr>;
              (duplicate, st1) = is_duplicate_delivery now (delivery_id event) st
          in if duplicate then (Done True, st1)
             else if \<not> truthy (repository event) then (Done False, st1)
             else case get_repository_config deps (repository event) of
               Raises \<Rightarrow> (Done False, st1)
             | Returns None \<Rightarrow> (Done True, st1)
             | Returns (Some repo_config) \<Rightarrow>
                 (case is_repository_enabled deps (repository event) of
                    Raises \<Rightarrow> (Done False, st1)
                  | Returns False \<Rightarrow> (Done True, st1)
                  | Returns True \<Rightarrow>
                      (case verify_webhook_signature deps event of
                         Raises \<Rightarrow> (Done False, st1)
                       | Returns False \<Rightarrow> (Done False, st1)
                       | Returns True \<Rightarrow>
                           if length (event_queue st1) < queue_maxsize
                           then (Done True, st1\<lparr>event_queue := event_queue st1 @ [event]\<rparr>)
                           else (Suspended, st1))))"

subsection \<open>The order of the steps as the specification words it\<close>

text \<open>
  The same steps with the same results, arranged as the specification of \<open>Submit\<close> lists
  them: validation, extraction of the repository, the gate on the repository configuration,
  the signature, the delivery cache, and last an enqueue that does not block and gives a
  rejection when the queue is full. It is compared with \<open>process_webhook\<close> below.
\<close>

definition submit_in_stated_order ::
  "Dependencies \<Rightarrow> seconds \<Rightarrow> WebhookEvent \<Rightarrow> WebhookProcessor \<Rightarrow> submit_outcome \<times> WebhookProcessor" where
  "submit_in_stated_order deps now webhook_data st =
     (if \<not> validate_event webhook_data then (Done False, st)
      else case extract_repository_name (payload webhook_data) of
        Raises \<Rightarrow> (Done False, st)
      | Returns repo \<Rightarrow>
          let event = webhook_data\<lparr>repository := repo\<rparr>
          in if \<not> truthy (repository event) then (Done False, st)
             else case get_repository_config deps (repository event) of
               Raises \<Rightarrow> (Done False, st)
             | Returns None \<Rightarrow> (Done True, st)
             | Returns (Some repo_config) \<Rightarrow>
                 (case is_repository_enabled deps (repository event) of
                    Raises \<Rightarrow> (Done False, st)
                  | Returns False \<Rightarrow> (Done True, st)
                  | Returns True \<Rightarrow>
                      (case verify_webhook_signature deps event of
                         Raises \<Rightarrow> (Done False, st)
                       | Returns False \<Rightarrow> (Done False, st)
                       | Returns True \<Rightarrow>
                           let (duplicate, st1) = is_duplicate_delivery now (delivery_id event) st
                           in if duplicate then (Done True, st1)
                              else if length (event_queue st1) < queue_maxsize
                              then (Done True, st1\<lparr>event_queue := event_queue st1 @ [event]\<rparr>)
                              else (Done False, st1))))"

subsection \<open>Example requests\<close>

text \<open>A stand-in for the library's HMAC that keeps algorithm, key and body apart.\<close>

definition stand_in_hexdigest :: hexdigest_fn where
  "stand_in_hexdigest alg secret body =
     (case alg of SHA1 \<Rightarrow> ''a1'' | SHA256 \<Rightarrow> ''a256'') @ ''/'' @ secret @ ''/'' @ body"

definition octo_config :: RepoConfig where
  "octo_config = \<lparr>enabled = None, webhook = None, verify_signature = None,
                   webhook_secret = Some ''s3cret'', allowed_message_types = None\<rparr>"

definition example_deps :: Dependencies where
  "example_deps = \<lparr>hexdigest_of = stand_in_hexdigest, json_dumps = (\<lambda>_. []), utils_set = True,
                    repo_mappings = [''octo/repo'' \<mapsto> octo_config,
                                     ''octo/off'' \<mapsto> octo_config\<lparr>enabled := Some False\<rparr>]\<rparr>"

text \<open>A push to a repository, delivery \<open>d-1\<close>, with the given signature header.\<close>

definition push_event :: "string \<Rightarrow> string \<Rightarrow> WebhookEvent" where
  "push_event repo sig =
     \<lparr>event_type = ''push'', delivery_id = ''d-1'', signature = sig,
      payload = JObj [(''repository'', JObj [(''full_name'', JStr repo)])],
      raw_body = Some ''body'', repository = JNull\<rparr>"

definition good_signature :: string where
  "good_signature = ''sha256=a256/s3cret/body''"

definition empty_processor :: WebhookProcessor where
  "empty_processor = \<lparr>delivery_cache = Map.empty, event_queue = []\<rparr>"

text \<open>Delivery \<open>d-1\<close> was first seen at time 0.\<close>

definition seen_processor :: WebhookProcessor where
  "seen_processor = \<lparr>delivery_cache = [''d-1'' \<mapsto> 0], event_queue = []\<rparr>"

section \<open>Permissions (permission\_manager.py, mcp.py)\<close>

datatype QQPermissionLevel = QQ_NONE | QQ_READ | QQ_WRITE | QQ_SU

datatype GitHubPermissionLevel = GH_NONE | GH_WRITE

text \<open>
  \<open>SimplifiedPermissionManager\<close>: the superusers read at start-up and the tables of
  \<open>permissions_data\<close>, whose values are the lower-case names of the levels.
\<close>

record SimplifiedPermissionManager =
  superusers :: "string list"
  qq_permissions :: "string \<rightharpoonup> string"
  github_permissions :: "string \<rightharpoonup> string"
  qq_github_mapping :: "string \<rightharpoonup> string"

text \<open>\<open>QQPermissionLevel(s)\<close> and \<open>GitHubPermissionLevel(s)\<close>; a \<open>ValueError\<close> gives the level NONE.\<close>

definition qq_level_of :: "string \<Rightarrow> QQPermissionLevel" where
  "qq_level_of s =
     (if s = ''none'' then QQ_NONE else if s = ''read'' then QQ_READ
      else if s = ''write'' then QQ_WRITE else if s = ''su'' then QQ_SU else QQ_NONE)"

definition github_level_of :: "string \<Rightarrow> GitHubPermissionLevel" where
  "github_level_of s = (if s = ''write'' then GH_WRITE else GH_NONE)"

definition is_superuser :: "SimplifiedPermissionManager \<Rightarrow> string \<Rightarrow> bool" where
  "is_superuser pm qq_id \<longleftrightarrow> qq_id \<in> set (superusers pm)"

definition get_qq_permission :: "SimplifiedPermissionManager \<Rightarrow> string \<Rightarrow> QQPermissionLevel" where
  "get_qq_permission pm qq_id =
     (if is_superuser pm qq_id then QQ_SU
      else qq_level_of (get_or ''none'' (qq_permissions pm qq_id)))"

definition get_github_by_qq :: "SimplifiedPermissionManager \<Rightarrow> string \<Rightarrow> string option" where
  "get_github_by_qq pm qq_id = qq_github_mapping pm qq_id"

text \<open>\<open>_get_effective_qq_permission\<close>: NONE becomes READ for a user bound to a GitHub name.\<close>

definition get_effective_qq_permission ::
  "SimplifiedPermissionManager \<Rightarrow> string \<Rightarrow> QQPermissionLevel" where
  "get_effective_qq_permission pm qq_id =
     (let base_permission = get_qq_permission pm qq_id
      in if base_permission = QQ_NONE
         then (case get_github_by_qq pm qq_id of
                 None \<Rightarrow> base_permission
               | Some github_username \<Rightarrow>
                   if github_username \<noteq> [] then QQ_READ else base_permission)
         else base_permission)"

fun permission_hierarchy :: "QQPermissionLevel \<Rightarrow> nat" where
  "permission_hierarchy QQ_NONE = 0"
| "permission_hierarchy QQ_READ = 1"
| "permission_hierarchy QQ_WRITE = 2"
| "permission_hierarchy QQ_SU = 3"

definition has_qq_permission ::
  "SimplifiedPermissionManager \<Rightarrow> string \<Rightarrow> QQPermissionLevel \<Rightarrow> bool" where
  "has_qq_permission pm qq_id required_permission \<longleftrightarrow>
     permission_hierarchy (get_effective_qq_permission pm qq_id)
       \<ge> permission_hierarchy required_permission"

definition get_github_permission ::
  "SimplifiedPermissionManager \<Rightarrow> string \<Rightarrow> GitHubPermissionLevel" where
  "get_github_permission pm github_username =
     github_level_of (get_or ''none'' (github_permissions pm github_username))"

text \<open>The set \<open>write_operations\<close> of \<open>check_mcp_write_permission\<close>.\<close>

definition manager_write_operations :: "string list" where
  "manager_write_operations =
     [''create_issue'', ''update_issue'', ''close_issue'', ''create_pull_request'',
      ''update_pull_request'', ''merge_pull_request'', ''add_comment'', ''update_comment'',
      ''delete_comment'', ''create_label'']"

definition check_mcp_write_permission :: "SimplifiedPermissionManager \<Rightarrow> string \<Rightarrow> string \<Rightarrow> bool" where
  "check_mcp_write_permission pm qq_id operation =
     (if operation \<notin> set manager_write_operations then True
      else if get_effective_qq_permission pm qq_id \<in> {QQ_WRITE, QQ_SU} then True
      else case get_github_by_qq pm qq_id of
             None \<Rightarrow> False
           | Some github_username \<Rightarrow>
               github_username \<noteq> [] \<and> get_github_permission pm github_username = GH_WRITE)"

text \<open>
  The tools \<open>_setup_default_tools\<close> registers, each with the list under its key
  \<open>"permissions"\<close>.
\<close>

definition default_tools :: "(string \<times> string list) list" where
  "default_tools =
     [(''search_code'', [''github_read'']), (''get_file_content'', [''github_read'']),
      (''list_repository_files'', [''github_read'']), (''list_pull_requests'', [''github_read'']),
      (''get_pull_request'', [''github_read'']), (''create_pull_request'', [''github_write'']),
      (''update_pull_request'', [''github_write'']), (''merge_pull_request'', [''github_write'']),
      (''list_issues'', [''github_read'']), (''get_issue'', [''github_read'']),
      (''create_issue'', [''github_write'']), (''update_issue'', [''github_write'']),
      (''close_issue'', [''github_write'']), (''list_comments'', [''github_read'']),
      (''add_comment'', [''github_write'']), (''create_issue_comment'', [''github_write'']),
      (''update_comment'', [''github_write'']), (''delete_comment'', [''github_write'']),
      (''list_labels'', [''github_read'']), (''create_label'', [''github_write'']),
      (''search_conversations'', [''ai_chat'']), (''get_context_stats'', [''ai_chat'']),
      (''find_related_contexts'', [''ai_chat'']), (''export_context'', [''ai_chat''])]"

definition get_tool_config :: "string \<Rightarrow> string list option" where
  "get_tool_config name = map_of default_tools name"

text \<open>The two sets and the mapping inside \<open>_check_tool_permissions\<close>.\<close>

definition read_operations :: "string list" where
  "read_operations =
     [''get_pull_request'', ''list_pull_requests'', ''get_issue'', ''list_issues'',
      ''get_issue_comments'', ''list_comments'', ''search_code'', ''get_file_content'',
      ''list_repository_files'', ''list_labels'', ''get_repository_info'',
      ''search_conversations'', ''get_context_statistics'', ''find_related_contexts'']"

definition write_operations :: "string list" where
  "write_operations =
     [''create_pull_request'', ''update_pull_request'', ''merge_pull_request'',
      ''create_issue'', ''update_issue'', ''close_issue'', ''add_comment'',
      ''update_comment'', ''delete_comment'', ''create_label'', ''add_labels_to_issue'',
      ''remove_labels_from_issue'', ''assign_issue'', ''unassign_issue'']"

definition permission_mapping :: "string \<Rightarrow> QQPermissionLevel" where
  "permission_mapping old_permission =
     (if old_permission = ''ai_chat'' then QQ_READ
      else if old_permission = ''github_read'' then QQ_READ
      else if old_permission = ''github_write'' then QQ_WRITE
      else if old_permission = ''user_manage'' then QQ_SU
      else if old_permission = ''system_admin'' then QQ_SU
      else QQ_READ)"

text \<open>
  \<open>MCPPermissionError\<close> with what its message names: the level that is needed, or that the
  operation cannot be executed.
\<close>

datatype MCPPermissionError = NeedsLevel QQPermissionLevel | CannotExecute

text \<open>The loop over the required permissions raises at the first one the user lacks.\<close>

fun check_required_permissions ::
  "SimplifiedPermissionManager \<Rightarrow> string \<Rightarrow> string list \<Rightarrow> MCPPermissionError option" where
  "check_required_permissions pm uid [] = None"
| "check_required_permissions pm uid (old_permission # rest) =
     (let required_level = permission_mapping old_permission
      in if \<not> has_qq_permission pm uid required_level then Some (NeedsLevel required_level)
         else check_required_permissions pm uid rest)"

text \<open>
  \<open>_check_tool_permissions\<close>: \<open>None\<close> when the check returns, the error when it raises.
  \<open>user_id or self.current_qq_id\<close> takes the first of the two that is neither \<open>None\<close> nor
  empty. \<open>required\<close> is the list under \<open>"permissions"\<close> in the tool's configuration.
\<close>

definition first_truthy :: "string option \<Rightarrow> string option \<Rightarrow> string option" where
  "first_truthy a b =
     (case a of Some x \<Rightarrow> (if x \<noteq> [] then a else b) | None \<Rightarrow> b)"

definition check_tool_permissions ::
  "SimplifiedPermissionManager option \<Rightarrow> string option \<Rightarrow> string \<Rightarrow> string list
    \<Rightarrow> string option \<Rightarrow> MCPPermissionError option" where
  "check_tool_permissions permission_manager current_qq_id tool_name required user_id =
     (case (first_truthy user_id current_qq_id, permission_manager) of
        (Some effective_user_id, Some pm) \<Rightarrow>
          if effective_user_id = [] then None
          else if has_qq_permission pm effective_user_id QQ_SU then None
          else if tool_name \<in> set write_operations
                  \<and> \<not> check_mcp_write_permission pm effective_user_id tool_name
            then Some (NeedsLevel QQ_WRITE)
          else if tool_name \<notin> set write_operations \<and> tool_name \<in> set read_operations
                  \<and> \<not> (has_qq_permission pm effective_user_id QQ_READ
                         \<or> check_mcp_write_permission pm effective_user_id tool_name)
            then Some (NeedsLevel QQ_READ)
          else if tool_name \<notin> set write_operations \<and> tool_name \<notin> set read_operations
                  \<and> \<not> check_mcp_write_permission pm effective_user_id tool_name
            then Some CannotExecute
          else check_required_permissions pm effective_user_id required
      | _ \<Rightarrow> None)"

text \<open>
  \<open>call_tool\<close> up to the execution of the tool: an unknown tool and parameters that do not
  validate are validation errors, a refused permission check is a permission error, and
  otherwise the tool is executed.
\<close>

datatype call_result = Executes | PermissionError MCPPermissionError | ValidationError

definition call_tool ::
  "SimplifiedPermissionManager option \<Rightarrow> string option \<Rightarrow> string \<Rightarrow> bool \<Rightarrow> string option
    \<Rightarrow> call_result" where
  "call_tool permission_manager current_qq_id tool_name parameters_valid user_id =
     (case get_tool_config tool_name of
        None \<Rightarrow> ValidationError
      | Some required \<Rightarrow>
          if \<not> parameters_valid then ValidationError
          else case check_tool_permissions permission_manager current_qq_id tool_name required user_id of
                 Some e \<Rightarrow> PermissionError e
               | None \<Rightarrow> Executes)"

text \<open>The write-class tools that are registered.\<close>

definition registered_write_tools :: "string list" where
  "registered_write_tools =
     [''create_issue'', ''update_issue'', ''close_issue'', ''create_pull_request'',
      ''update_pull_request'', ''merge_pull_request'', ''add_comment'', ''create_issue_comment'',
      ''update_comment'', ''delete_comment'', ''create_label'']"

subsection \<open>Example permission table\<close>

text \<open>
  Chat user \<open>10001\<close> has no chat level of its own and is bound to the GitHub user
  \<open>octocat\<close>, whose level is write.
\<close>

definition bound_manager :: SimplifiedPermissionManager where
  "bound_manager = \<lparr>superusers = [''1''], qq_permissions = Map.empty,
                     github_permissions = [''octocat'' \<mapsto> ''write''],
                     qq_github_mapping = [''10001'' \<mapsto> ''octocat'']\<rparr>"

section \<open>Submission of an AI review (webhook.py, gh\_rest.py)\<close>

text \<open>
  A review of the pull request as the REST API lists it; \<open>review_id = 0\<close> stands for a
  missing identifier. \<open>outdated\<close> records that \<open>hide_review_as_outdated\<close> was called on it.
\<close>

record Review =
  review_id :: nat
  review_author :: string
  review_state :: string
  outdated :: bool

datatype api_call =
    GetPrFiles | GetPrReviews | HideReviewAsOutdated nat | FindBotComment
  | UpdateIssueComment nat | CreateIssueComment | RemoveReviewRequest | CreatePrReview string

text \<open>
  The pull request on GitHub as the review task sees it: the reviews that exist, and the log
  of the API calls made, oldest first. Every API call is taken to succeed, except the creation
  of the review, whose success is part of the environment.
\<close>

record GitHubSide =
  reviews :: "Review list"
  api_calls :: "api_call list"

record ReviewResult =
  approved :: bool
  overall_score :: real
  summary :: string

text \<open>
  What the task meets: whether an API client exists, whether the pull request has files,
  what the reviewer returned, the configured name of the bot, the bot's comment that
  \<open>find_bot_comment_by_keywords\<close> finds, and whether \<open>create_pr_review\<close> succeeds.
\<close>

record ReviewEnv =
  client_available :: bool
  pr_files_found :: bool
  review_result :: "ReviewResult option"
  bot_username :: string
  existing_bot_comment :: "nat option"
  create_review_succeeds :: bool

definition is_outdated_candidate :: "string \<Rightarrow> Review \<Rightarrow> bool" where
  "is_outdated_candidate bot_name review \<longleftrightarrow>
     review_author review = bot_name
     \<and> review_state review \<in> {''CHANGES_REQUESTED'', ''COMMENTED''}
     \<and> review_id review \<noteq> 0"

text \<open>\<open>_check_and_hide_outdated_reviews\<close>\<close>

definition check_and_hide_outdated_reviews :: "string \<Rightarrow> GitHubSide \<Rightarrow> GitHubSide" where
  "check_and_hide_outdated_reviews bot_name gh =
     gh\<lparr>reviews := map (\<lambda>review. if is_outdated_candidate bot_name review
                                   then review\<lparr>outdated := True\<rparr> else review) (reviews gh),
        api_calls := api_calls gh @ [GetPrReviews]
                     @ map (\<lambda>review. HideReviewAsOutdated (review_id review))
                         (filter (is_outdated_candidate bot_name) (reviews gh))\<rparr>"

text \<open>\<open>_remove_review_and_comment\<close>\<close>

definition remove_review_and_comment :: "ReviewEnv \<Rightarrow> string \<Rightarrow> GitHubSide \<Rightarrow> GitHubSide" where
  "remove_review_and_comment env bot_name gh =
     (if \<not> client_available env then gh
      else
        let gh1 = check_and_hide_outdated_reviews bot_name gh;
            comment_call = (case existing_bot_comment env of
                              None \<Rightarrow> CreateIssueComment
                            | Some comment_id \<Rightarrow>
                                if comment_id \<noteq> 0 then UpdateIssueComment comment_id
                                else CreateIssueComment)
        in gh1\<lparr>api_calls := api_calls gh1 @ [FindBotComment, comment_call, RemoveReviewRequest]\<rparr>)"

text \<open>Lower case of the ASCII letters, and Python's \<open>sub in s\<close> on strings.\<close>

definition ascii_lower :: "char \<Rightarrow> char" where
  "ascii_lower c =
     (let n = (of_char c :: nat) in if 65 \<le> n \<and> n \<le> 90 then char_of (n + 32) else c)"

fun contains :: "string \<Rightarrow> string \<Rightarrow> bool" where
  "contains [] sub = (sub = [])"
| "contains (c # cs) sub = (take (length sub) (c # cs) = sub \<or> contains cs sub)"

text \<open>
  The test of \<open>_perform_ai_review\<close> on the summary: it contains the four Chinese characters
  for "review exception" (given here by their UTF-8 bytes), or its lower case contains
  \<open>error\<close>.
\<close>

definition review_exception_marker :: string where
  "review_exception_marker =
     [CHR 0xE5, CHR 0xAE, CHR 0xA1, CHR 0xE6, CHR 0x9F, CHR 0xA5,
      CHR 0xE5, CHR 0xBC, CHR 0x82, CHR 0xE5, CHR 0xB8, CHR 0xB8]"

definition summary_reports_error :: "string \<Rightarrow> bool" where
  "summary_reports_error s \<longleftrightarrow>
     contains s review_exception_marker \<or> contains (map ascii_lower s) ''error''"

text \<open>\<open>submit_ai_review\<close>: the event, and the one API call that creates the review.\<close>

definition review_event :: "ReviewResult \<Rightarrow> string" where
  "review_event rr = (if approved rr \<and> overall_score rr \<ge> 90 then ''APPROVE'' else ''COMMENT'')"

definition submit_ai_review :: "ReviewEnv \<Rightarrow> ReviewResult \<Rightarrow> GitHubSide \<Rightarrow> bool \<times> GitHubSide" where
  "submit_ai_review env rr gh =
     (if \<not> client_available env then (False, gh)
      else (create_review_succeeds env,
            gh\<lparr>api_calls := api_calls gh @ [CreatePrReview (review_event rr)]\<rparr>))"

text \<open>\<open>_perform_ai_review\<close>, without the notification it sends after a successful submission.\<close>

definition perform_ai_review :: "ReviewEnv \<Rightarrow> GitHubSide \<Rightarrow> GitHubSide" where
  "perform_ai_review env gh =
     (if \<not> client_available env then gh
      else
        let gh1 = gh\<lparr>api_calls := api_calls gh @ [GetPrFiles]\<rparr>
        in if \<not> pr_files_found env then remove_review_and_comment env (bot_username env) gh1
           else case review_result env of
             None \<Rightarrow>
               if bot_username env \<noteq> []
               then (let gh2 = remove_review_and_comment env (bot_username env) gh1
                     in gh2\<lparr>api_calls := api_calls gh2 @ [RemoveReviewRequest]\<rparr>)
               else gh1
           | Some rr \<Rightarrow>
               if summary_reports_error (summary rr)
               then (let gh2 = remove_review_and_comment env (bot_username env) gh1
                     in gh2\<lparr>api_calls := api_calls gh2 @ [RemoveReviewRequest]\<rparr>)
               else (let (success, gh2) = submit_ai_review env rr gh1
                     in if success then gh2
                        else remove_review_and_comment env (bot_username env) gh2))"

subsection \<open>Example pull request\<close>



section \<open>Rate limiting (ai\_handler.py, ai\_models.py)\<close>










subsection \<open>Example calls\<close>




section \<open>Properties of the aggregator\<close>

subsection \<open>Muting\<close>

text \<open>
  C3. While \<open>now < mute_until\<close> nothing is sent, for any key: a message added then is dropped
  at enqueue time (the call returns False and the aggregator is unchanged), a drain that runs
  then adds no send to the outbox, and neither does a timer whose expiry falls in the mute.
\<close>

theorem muted_no_outbound_send:
  "now < mute_until agg \<Longrightarrow>
     add_message now cfg k c tg agg = (False, agg)
     \<and> outbox (send_aggregated_messages now k agg) = outbox agg
     \<and> outbox (timer_expires now k agg) = outbox agg"
  by (simp add: add_message_def send_aggregated_messages_def timer_expires_def is_muted_def
      split: option.splits)

theorem muted_no_outbound_send_witness:
  "(50::real) < mute_until muted_pending
   \<and> add_message 50 None ''qq_1'' ''issue'' [''group 1''] muted_pending = (False, muted_pending)
   \<and> outbox (send_aggregated_messages 50 ''qq_1'' muted_pending) = outbox muted_pending
   \<and> outbox (timer_expires 50 ''qq_1'' muted_pending) = outbox muted_pending"
  using muted_no_outbound_send [of 50 muted_pending None "''qq_1''" "''issue''" "[''group 1'']"]
  by (simp add: muted_pending_def)

subsection \<open>Fan-out of a drained group\<close>

text \<open>
  C10. When a group that is not empty is drained (mute inactive), the sends are exactly one
  per target of the first message of the group, each carrying the whole group; the target
  lists of the later messages play no part, so no target that appears only on a later message
  receives the bundle.
\<close>

theorem drain_uses_first_message_targets:
  "\<not> is_muted now agg \<Longrightarrow> aggregation_groups agg k = Some grp \<Longrightarrow> messages grp = first # rest \<Longrightarrow>
     outbox (send_aggregated_messages now k agg)
       = outbox agg @ map (\<lambda>target. (target, first # rest)) (targets first)
     \<and> (\<forall>target. target \<notin> set (targets first) \<longrightarrow>
           target \<notin> fst ` set (drop (length (outbox agg)) (outbox (send_aggregated_messages now k agg))))"
  by (auto simp add: send_aggregated_messages_def Let_def)

theorem drain_uses_first_message_targets_witness:
  "\<not> is_muted 46 two_pending
   \<and> aggregation_groups two_pending ''qq_1''
       = Some \<lparr>key = ''qq_1'',
               messages = [\<lparr>content = ''push'', timestamp = 40, targets = [''group 1'']\<rparr>,
                           \<lparr>content = ''star'', timestamp = 41, targets = [''group 2'']\<rparr>],
               timer = Some 46, created_at = 40, last_updated = 41\<rparr>
   \<and> outbox (send_aggregated_messages 46 ''qq_1'' two_pending)
       = [(''group 1'', [\<lparr>content = ''push'', timestamp = 40, targets = [''group 1'']\<rparr>,
                        \<lparr>content = ''star'', timestamp = 41, targets = [''group 2'']\<rparr>])]
   \<and> ''group 2'' \<notin> fst ` set (outbox (send_aggregated_messages 46 ''qq_1'' two_pending))"
  using drain_uses_first_message_targets [of 46 two_pending "''qq_1''"
      "\<lparr>key = ''qq_1'',
               messages = [\<lparr>content = ''push'', timestamp = 40, targets = [''group 1'']\<rparr>,
                           \<lparr>content = ''star'', timestamp = 41, targets = [''group 2'']\<rparr>],
               timer = Some 46, created_at = 40, last_updated = 41\<rparr>"
      "\<lparr>content = ''push'', timestamp = 40, targets = [''group 1'']\<rparr>"
      "[\<lparr>content = ''star'', timestamp = 41, targets = [''group 2'']\<rparr>]"]
  by (simp add: two_pending_def is_muted_def)

subsection \<open>Bursts\<close>














subsection \<open>Timer expiry during a mute\<close>

text \<open>
  C5. A timer that expires while the mute is active runs \<open>_send_aggregated_messages\<close>, which
  returns at the mute test before it takes the lock: the group is neither copied nor deleted.
  In \<open>muted_pending\<close> the group of \<open>qq_1\<close> is still in the table after its timer expired at
  45, with its message and no live timer; and once the mute is over, the next message for the
  key is bundled with the message that was due during the mute.
\<close>

theorem muted_expiry_keeps_group:
  "is_muted 45 muted_pending
   \<and> send_aggregated_messages 45 ''qq_1'' muted_pending = muted_pending
   \<and> aggregation_groups (timer_expires 45 ''qq_1'' muted_pending) ''qq_1''
       = Some \<lparr>key = ''qq_1'',
               messages = [\<lparr>content = ''push'', timestamp = 40, targets = [''group 1'']\<rparr>],
               timer = None, created_at = 40, last_updated = 40\<rparr>
   \<and> outbox (timer_expires 106 ''qq_1''
               (snd (add_message 101 None ''qq_1'' ''star'' [''group 1'']
                      (timer_expires 45 ''qq_1'' muted_pending))))
       = [(''group 1'', [\<lparr>content = ''push'', timestamp = 40, targets = [''group 1'']\<rparr>,
                        \<lparr>content = ''star'', timestamp = 101, targets = [''group 1'']\<rparr>])]"
  by (simp add: muted_pending_def timer_expires_def send_aggregated_messages_def is_muted_def
      add_message_def aggregation_delay_def default_delay_def max_messages_per_group_def)

section \<open>Properties of the webhook ingress\<close>

lemmas wh_defs = validate_event_def extract_repository_name_def
  repository_full_name_def dict_get_def is_duplicate_delivery_def expire_def cache_ttl_def
  get_repository_config_def is_repository_enabled_def verify_webhook_signature_def
  verify_github_signature_def startswith_def get_or_def queue_maxsize_def supported_events_def

lemmas ex_defs = example_deps_def octo_config_def push_event_def good_signature_def
  empty_processor_def seen_processor_def stand_in_hexdigest_def

subsection \<open>Signature verification\<close>

text \<open>
  With a signature header and a secret that are both not empty, the verifier returns True
  exactly when the header names one of the two algorithms and the rest of the header equals
  the HMAC of the body under the secret with that algorithm.
\<close>

lemma verify_github_signature_signed:
  "signature_header \<noteq> [] \<Longrightarrow> secret \<noteq> [] \<Longrightarrow>
   verify_github_signature h body signature_header secret \<longleftrightarrow>
     (if startswith signature_header ''sha1=''
      then drop 5 signature_header = h SHA1 secret body
      else startswith signature_header ''sha256=''
           \<and> drop 7 signature_header = h SHA256 secret body)"
  by (simp add: verify_github_signature_def)

text \<open>
  C1. The verifier is to fail closed when a secret is configured and the signature header is
  missing. It returns True on an empty header: in \<open>example_deps\<close> the repository has the
  secret \<open>s3cret\<close> and verification is on, yet the push without a signature header passes
  \<open>verify_github_signature\<close> and \<open>_verify_webhook_signature\<close>, and \<open>process_webhook\<close> puts
  it on the queue.
\<close>

theorem unsigned_request_is_accepted:
  "verify_github_signature stand_in_hexdigest ''body'' [] ''s3cret'' = True
   \<and> verify_webhook_signature example_deps ((push_event ''octo/repo'' [])\<lparr>repository := JStr ''octo/repo''\<rparr>)
       = Returns True
   \<and> process_webhook example_deps 100 (push_event ''octo/repo'' []) empty_processor
       = (Done True, \<lparr>delivery_cache = [''d-1'' \<mapsto> 100],
                      event_queue = [(push_event ''octo/repo'' [])\<lparr>repository := JStr ''octo/repo''\<rparr>]\<rparr>)"
  by (simp add: process_webhook_def wh_defs ex_defs)

subsection \<open>The order of the steps\<close>

text \<open>
  C6, as the code has it. \<open>process_webhook\<close> validates the event (type, delivery id and
  payload present, type supported); an invalid event changes nothing. It extracts the
  repository, then looks the delivery up in the cache, which records it: a duplicate is
  answered True whatever its repository, configuration and signature. Then a missing
  repository gives False; a repository that is not configured or not enabled gives True
  whatever the signature; then the signature is verified and a failure gives False; last the
  event, when the queue holds fewer than 1000 events, is appended to the queue.
\<close>

theorem process_webhook_step_order:
  "(\<not> validate_event ev \<longrightarrow> process_webhook deps now ev st = (Done False, st))
   \<and> (validate_event ev \<and> extract_repository_name (payload ev) = Returns r \<longrightarrow>
        (let event = ev\<lparr>repository := r\<rparr>;
             dup = fst (is_duplicate_delivery now (delivery_id ev) st);
             st1 = snd (is_duplicate_delivery now (delivery_id ev) st)
         in (dup \<longrightarrow> process_webhook deps now ev st = (Done True, st1))
            \<and> (\<not> dup \<and> \<not> truthy r \<longrightarrow> process_webhook deps now ev st = (Done False, st1))
            \<and> (\<not> dup \<and> truthy r \<and> get_repository_config deps r = Returns None \<longrightarrow>
                  process_webhook deps now ev st = (Done True, st1))
            \<and> (\<not> dup \<and> truthy r \<and> get_repository_config deps r = Returns (Some rc)
                  \<and> is_repository_enabled deps r = Returns False \<longrightarrow>
                  process_webhook deps now ev st = (Done True, st1))
            \<and> (\<not> dup \<and> truthy r \<and> get_repository_config deps r = Returns (Some rc)
                  \<and> is_repository_enabled deps r = Returns True
                  \<and> verify_webhook_signature deps event = Returns False \<longrightarrow>
                  process_webhook deps now ev st = (Done False, st1))
            \<and> (\<not> dup \<and> truthy r \<and> get_repository_config deps r = Returns (Some rc)
                  \<and> is_repository_enabled deps r = Returns True
                  \<and> verify_webhook_signature deps event = Returns True
                  \<and> length (event_queue st1) < queue_maxsize \<longrightarrow>
                  process_webhook deps now ev st
                    = (Done True, st1\<lparr>event_queue := event_queue st1 @ [event]\<rparr>))))"
proof (cases "is_duplicate_delivery now (delivery_id ev) st")
  case (Pair dup st1)
  then show ?thesis by (simp add: process_webhook_def Let_def)
qed

theorem process_webhook_step_order_witness:
  "process_webhook example_deps 100 ((push_event ''octo/repo'' good_signature)\<lparr>event_type := ''gollum''\<rparr>)
       empty_processor = (Done False, empty_processor)
   \<and> process_webhook example_deps 100 (push_event ''octo/repo'' ''sha256=bad'') seen_processor
       = (Done True, seen_processor)
   \<and> process_webhook example_deps 100 ((push_event ''octo/repo'' good_signature)\<lparr>payload := JObj [(''zen'', JStr ''hi'')]\<rparr>)
       empty_processor = (Done False, \<lparr>delivery_cache = [''d-1'' \<mapsto> 100], event_queue = []\<rparr>)
   \<and> process_webhook example_deps 100 (push_event ''octo/other'' ''sha256=bad'') empty_processor
       = (Done True, \<lparr>delivery_cache = [''d-1'' \<mapsto> 100], event_queue = []\<rparr>)
   \<and> process_webhook example_deps 100 (push_event ''octo/off'' ''sha256=bad'') empty_processor
       = (Done True, \<lparr>delivery_cache = [''d-1'' \<mapsto> 100], event_queue = []\<rparr>)
   \<and> process_webhook example_deps 100 (push_event ''octo/repo'' ''sha256=bad'') empty_processor
       = (Done False, \<lparr>delivery_cache = [''d-1'' \<mapsto> 100], event_queue = []\<rparr>)
   \<and> process_webhook example_deps 100 (push_event ''octo/repo'' good_signature) empty_processor
       = (Done True, \<lparr>delivery_cache = [''d-1'' \<mapsto> 100],
                      event_queue = [(push_event ''octo/repo'' good_signature)\<lparr>repository := JStr ''octo/repo''\<rparr>]\<rparr>)"
proof -
  let ?inv = "(push_event ''octo/repo'' good_signature)\<lparr>event_type := ''gollum''\<rparr>"
  let ?norepo = "(push_event ''octo/repo'' good_signature)\<lparr>payload := JObj [(''zen'', JStr ''hi'')]\<rparr>"
  let ?off = "octo_config\<lparr>enabled := Some False\<rparr>"
  note order = process_webhook_step_order [where deps = example_deps and now = 100]
  have 1: "process_webhook example_deps 100 ?inv empty_processor = (Done False, empty_processor)"
    using order [where ev = ?inv and st = empty_processor]
    by (simp add: validate_event_def supported_events_def ex_defs)
  have 2: "process_webhook example_deps 100 (push_event ''octo/repo'' ''sha256=bad'') seen_processor
       = (Done True, seen_processor)"
    using order [where ev = "push_event ''octo/repo'' ''sha256=bad''" and r = "JStr ''octo/repo''"
        and st = seen_processor]
    by (simp add: wh_defs ex_defs fun_eq_iff)
  have 3: "process_webhook example_deps 100 ?norepo empty_processor
       = (Done False, \<lparr>delivery_cache = [''d-1'' \<mapsto> 100], event_queue = []\<rparr>)"
    using order [where ev = ?norepo and r = JNull and st = empty_processor]
    by (simp add: wh_defs ex_defs)
  have 4: "process_webhook example_deps 100 (push_event ''octo/other'' ''sha256=bad'') empty_processor
       = (Done True, \<lparr>delivery_cache = [''d-1'' \<mapsto> 100], event_queue = []\<rparr>)"
    using order [where ev = "push_event ''octo/other'' ''sha256=bad''" and r = "JStr ''octo/other''"
        and st = empty_processor]
    by (simp add: wh_defs ex_defs)
  have 5: "process_webhook example_deps 100 (push_event ''octo/off'' ''sha256=bad'') empty_processor
       = (Done True, \<lparr>delivery_cache = [''d-1'' \<mapsto> 100], event_queue = []\<rparr>)"
    using order [where ev = "push_event ''octo/off'' ''sha256=bad''" and r = "JStr ''octo/off''"
        and st = empty_processor and rc = ?off]
    by (simp add: wh_defs ex_defs)
  have 6: "process_webhook example_deps 100 (push_event ''octo/repo'' ''sha256=bad'') empty_processor
       = (Done False, \<lparr>delivery_cache = [''d-1'' \<mapsto> 100], event_queue = []\<rparr>)"
    using order [where ev = "push_event ''octo/repo'' ''sha256=bad''" and r = "JStr ''octo/repo''"
        and st = empty_processor and rc = octo_config]
    by (simp add: wh_defs ex_defs)
  have 7: "process_webhook example_deps 100 (push_event ''octo/repo'' good_signature) empty_processor
       = (Done True, \<lparr>delivery_cache = [''d-1'' \<mapsto> 100],
                      event_queue = [(push_event ''octo/repo'' good_signature)\<lparr>repository := JStr ''octo/repo''\<rparr>]\<rparr>)"
    using order [where ev = "push_event ''octo/repo'' good_signature" and r = "JStr ''octo/repo''"
        and st = empty_processor and rc = octo_config]
    by (simp add: wh_defs ex_defs)
  from 1 2 3 4 5 6 7 show ?thesis by blast
qed

text \<open>
  C6 as stated puts the signature before the delivery cache. On a delivery that is already
  in the cache and carries a wrong signature the two orders differ: the code answers True
  (duplicate), the stated order answers False (signature).
\<close>

theorem step_order_counterexample:
  "process_webhook example_deps 100 (push_event ''octo/repo'' ''sha256=bad'') seen_processor
     \<noteq> submit_in_stated_order example_deps 100 (push_event ''octo/repo'' ''sha256=bad'') seen_processor
   \<and> fst (process_webhook example_deps 100 (push_event ''octo/repo'' ''sha256=bad'') seen_processor) = Done True
   \<and> fst (submit_in_stated_order example_deps 100 (push_event ''octo/repo'' ''sha256=bad'') seen_processor) = Done False"
  by (simp add: process_webhook_def wh_defs ex_defs submit_in_stated_order_def)

subsection \<open>Retries of a rejected delivery\<close>





section \<open>Properties of the permission check\<close>

lemmas perm_defs = check_tool_permissions_def first_truthy_def has_qq_permission_def
  get_effective_qq_permission_def get_qq_permission_def is_superuser_def qq_level_of_def
  get_github_by_qq_def get_github_permission_def github_level_of_def get_or_def
  check_mcp_write_permission_def manager_write_operations_def write_operations_def
  read_operations_def permission_mapping_def

text \<open>
  What the check does for the write-class tools that are registered: with a user and a
  permission manager present, the tool is executed exactly for the effective chat levels
  WRITE and SU. A binding to a GitHub user with write level does not count.
\<close>

lemma registered_write_tool_config:
  "tool \<in> set registered_write_tools \<Longrightarrow> get_tool_config tool = Some [''github_write'']"
  unfolding registered_write_tools_def
  by (simp, elim disjE) (simp_all add: get_tool_config_def default_tools_def)

lemma has_su_iff: "has_qq_permission pm uid QQ_SU \<longleftrightarrow> get_effective_qq_permission pm uid = QQ_SU"
  by (cases "get_effective_qq_permission pm uid") (simp_all add: has_qq_permission_def)

lemma has_write_iff:
  "has_qq_permission pm uid QQ_WRITE \<longleftrightarrow> get_effective_qq_permission pm uid \<in> {QQ_WRITE, QQ_SU}"
  by (cases "get_effective_qq_permission pm uid") (simp_all add: has_qq_permission_def)

lemma write_level_passes_manager:
  "get_effective_qq_permission pm uid \<in> {QQ_WRITE, QQ_SU} \<Longrightarrow> check_mcp_write_permission pm uid op"
  by (simp add: check_mcp_write_permission_def)

lemma registered_write_tool_needs_chat_write:
  assumes "tool \<in> set registered_write_tools" and "uid \<noteq> []"
  shows "call_tool (Some pm) cur tool True (Some uid) = Executes
           \<longleftrightarrow> get_effective_qq_permission pm uid \<in> {QQ_WRITE, QQ_SU}"
proof (cases "get_effective_qq_permission pm uid \<in> {QQ_WRITE, QQ_SU}")
  case True
  then have "check_mcp_write_permission pm uid tool" by (rule write_level_passes_manager)
  with True assms(2) show ?thesis
    by (auto simp add: call_tool_def registered_write_tool_config [OF assms(1)]
        check_tool_permissions_def first_truthy_def has_su_iff has_write_iff permission_mapping_def)
next
  case False
  then have "\<not> has_qq_permission pm uid QQ_WRITE" "\<not> has_qq_permission pm uid QQ_SU"
    by (simp_all add: has_su_iff has_write_iff)
  with False assms(2) show ?thesis
    by (simp add: call_tool_def registered_write_tool_config [OF assms(1)]
        check_tool_permissions_def first_truthy_def permission_mapping_def)
qed

text \<open>
  C2. A write-class tool is to execute for a chat user who is bound to a GitHub user with
  write level. For chat user \<open>10001\<close> of \<open>bound_manager\<close> (effective chat level READ, bound to
  \<open>octocat\<close> with write level) \<open>check_mcp_write_permission\<close> allows \<open>create_issue\<close>, but
  \<open>_check_tool_permissions\<close> then requires the chat level WRITE for the tool's permission
  \<open>github_write\<close> and raises: the call ends in a permission error.
\<close>

theorem bound_write_user_is_refused:
  "get_effective_qq_permission bound_manager ''10001'' = QQ_READ
   \<and> get_github_by_qq bound_manager ''10001'' = Some ''octocat''
   \<and> get_github_permission bound_manager ''octocat'' = GH_WRITE
   \<and> check_mcp_write_permission bound_manager ''10001'' ''create_issue'' = True
   \<and> check_tool_permissions (Some bound_manager) None ''create_issue'' [''github_write''] (Some ''10001'')
       = Some (NeedsLevel QQ_WRITE)
   \<and> call_tool (Some bound_manager) None ''create_issue'' True (Some ''10001'')
       = PermissionError (NeedsLevel QQ_WRITE)"
  by (simp add: perm_defs bound_manager_def call_tool_def get_tool_config_def default_tools_def)

section \<open>Properties of the review submission\<close>

text \<open>
  When the reviewer returned a result without an error mark and the creation of the review
  succeeds, the task makes two API calls, for the files and for the new review; the
  failure path, through \<open>_remove_review_and_comment\<close>, is the one that hides the earlier
  reviews of the bot.
\<close>

lemma submission_hides_nothing:
  assumes "client_available env" and "pr_files_found env" and "review_result env = Some rr"
    and "\<not> summary_reports_error (summary rr)" and "create_review_succeeds env"
  shows "perform_ai_review env gh
           = gh\<lparr>api_calls := api_calls gh @ [GetPrFiles, CreatePrReview (review_event rr)]\<rparr>"
  using assms by (simp add: perform_ai_review_def submit_ai_review_def)

lemma failure_path_hides_candidates:
  assumes "client_available env" and "review \<in> set (reviews gh)" and "is_outdated_candidate b review"
  shows "HideReviewAsOutdated (review_id review) \<in> set (api_calls (remove_review_and_comment env b gh))"
  using assms by (auto simp add: remove_review_and_comment_def check_and_hide_outdated_reviews_def Let_def)


section \<open>Properties of the rate limiter\<close>












end
